theory Spec2Isabelle
  imports
    Complex_Main
    "HOL-Library.Char_ord"
    "HOL-Library.List_Lexorder"
    "HOL-Library.Product_Lexorder"
begin

section \<open>Airline network planner: the audit and forecast engines of app.py\<close>

text \<open>
  The two engines of \<^verbatim>\<open>src/app.py\<close>, \<^verbatim>\<open>run_audit\<close> (lines 62--95) and
  \<^verbatim>\<open>get_forecast\<close> (lines 98--119), work on a pandas table. A table is modelled as a
  list of typed rows together with the presence of the two destination columns that
  \<^verbatim>\<open>load_data\<close> treats as optional. Column names are kept as the source writes them.

  Numbers: the finite values of a float64 column are modelled as real numbers (no
  rounding, no overflow, no signed zero). What IEEE arithmetic yields beyond the finite
  values, the infinities and NaN, is kept as explicit values of the type \<open>fval\<close>, so
  that a division by zero of the source is a visible result of the model and not HOL's
  \<open>x / 0 = 0\<close>.
\<close>

subsection \<open>Float values with infinities and NaN\<close>

datatype fval = Fin real | PInf | NInf | NaN

text \<open>The signed infinity \<open>inf * s\<close> for a finite \<open>s\<close>; \<open>inf * 0\<close> is NaN.\<close>

definition inf_times :: "real \<Rightarrow> fval" where
  "inf_times s = (if s = 0 then NaN else if 0 < s then PInf else NInf)"

fun fneg :: "fval \<Rightarrow> fval" where
  "fneg (Fin a) = Fin (- a)"
| "fneg PInf = NInf"
| "fneg NInf = PInf"
| "fneg NaN = NaN"

fun fadd :: "fval \<Rightarrow> fval \<Rightarrow> fval" where
  "fadd (Fin a) (Fin b) = Fin (a + b)"
| "fadd (Fin a) PInf = PInf"
| "fadd (Fin a) NInf = NInf"
| "fadd PInf (Fin b) = PInf"
| "fadd NInf (Fin b) = NInf"
| "fadd PInf PInf = PInf"
| "fadd NInf NInf = NInf"
| "fadd PInf NInf = NaN"
| "fadd NInf PInf = NaN"
| "fadd NaN y = NaN"
| "fadd x NaN = NaN"

definition fsub :: "fval \<Rightarrow> fval \<Rightarrow> fval" where
  "fsub x y = fadd x (fneg y)"

fun fmul :: "fval \<Rightarrow> fval \<Rightarrow> fval" where
  "fmul (Fin a) (Fin b) = Fin (a * b)"
| "fmul (Fin a) PInf = inf_times a"
| "fmul (Fin a) NInf = inf_times (- a)"
| "fmul PInf (Fin b) = inf_times b"
| "fmul NInf (Fin b) = inf_times (- b)"
| "fmul PInf PInf = PInf"
| "fmul NInf NInf = PInf"
| "fmul PInf NInf = NInf"
| "fmul NInf PInf = NInf"
| "fmul NaN y = NaN"
| "fmul x NaN = NaN"

text \<open>
  Division as numpy performs it on float64: a finite nonzero quotient by zero is an
  infinity with the sign of the numerator, \<open>0 / 0\<close> is NaN, and no exception is raised.
\<close>

fun fdiv :: "fval \<Rightarrow> fval \<Rightarrow> fval" where
  "fdiv (Fin a) (Fin b) = (if b = 0 then inf_times a else Fin (a / b))"
| "fdiv (Fin a) PInf = Fin 0"
| "fdiv (Fin a) NInf = Fin 0"
| "fdiv PInf (Fin b) = (if 0 \<le> b then PInf else NInf)"
| "fdiv NInf (Fin b) = (if 0 \<le> b then NInf else PInf)"
| "fdiv PInf PInf = NaN"
| "fdiv NInf NInf = NaN"
| "fdiv PInf NInf = NaN"
| "fdiv NInf PInf = NaN"
| "fdiv NaN y = NaN"
| "fdiv x NaN = NaN"

text \<open>
  \<^verbatim>\<open>x ** e\<close> on a float64 column with a float exponent: \<open>0 ** e\<close> is \<open>inf\<close> for a negative
  exponent, and a negative base with a non-integral exponent is NaN.
\<close>

definition fpow :: "real \<Rightarrow> real \<Rightarrow> fval" where
  "fpow x e =
     (if 0 < x then Fin (x powr e)
      else if x = 0 then (if e < 0 then PInf else if e = 0 then Fin 1 else Fin 0)
      else if e = of_int \<lfloor>e\<rfloor> then Fin (power_int x \<lfloor>e\<rfloor>)
      else NaN)"

text \<open>Comparisons: every comparison with NaN is false.\<close>

fun fgt :: "fval \<Rightarrow> fval \<Rightarrow> bool" where
  "fgt (Fin a) (Fin b) = (b < a)"
| "fgt (Fin a) PInf = False"
| "fgt (Fin a) NInf = True"
| "fgt PInf (Fin b) = True"
| "fgt NInf (Fin b) = False"
| "fgt PInf PInf = False"
| "fgt NInf NInf = False"
| "fgt PInf NInf = True"
| "fgt NInf PInf = False"
| "fgt NaN y = False"
| "fgt x NaN = False"

definition fle :: "fval \<Rightarrow> fval \<Rightarrow> bool" where
  "fle x y = (x \<noteq> NaN \<and> y \<noteq> NaN \<and> \<not> fgt x y)"


subsection \<open>Tables\<close>

text \<open>
  A row carries the columns the two engines read. \<open>Region\<close>, \<open>Dest_Label\<close> and
  \<open>Airline_Label\<close> are the columns \<^verbatim>\<open>load_data\<close> adds (lines 44--53); the engines use
  \<open>Region\<close> and \<open>Airline_Label\<close> as grouping keys only, so they are taken as given texts,
  while \<open>Dest_Label\<close> is computed below as line 48 does.
\<close>

record row =
  YEAR :: int
  MONTH :: int
  ORIGIN :: string
  DEST :: string
  DEST_CITY_NAME :: string
  Region :: string
  Dest_Label :: string
  Airline_Label :: string
  PASSENGERS :: real
  SEATS :: real
  DEPARTURES_PERFORMED :: real
  DISTANCE :: real

text \<open>
  The table: its rows, and whether it has the columns \<^verbatim>\<open>DEST_CITY_NAME\<close> and
  \<^verbatim>\<open>DEST\<close>. Where a column is absent the field of that name in the rows is not read.
\<close>

record dataframe =
  has_DEST_CITY_NAME :: bool
  has_DEST :: bool
  rows :: "row list"

datatype py_error = KeyError string | ValueError

text \<open>
  The part of \<^verbatim>\<open>load_data\<close> after the files are read (lines 38--48): rows without seats
  or without departures are dropped, and \<^verbatim>\<open>Dest_Label\<close> is
  \<^verbatim>\<open>df.get('DEST_CITY_NAME', df.get('DEST', 'Unknown'))\<close>. The column
  \<^verbatim>\<open>DEPARTURES_PERFORMED\<close> is taken as present, since \<^verbatim>\<open>run_audit\<close> aggregates it.
\<close>

definition dest_label :: "dataframe \<Rightarrow> row \<Rightarrow> string" where
  "dest_label df r =
     (if has_DEST_CITY_NAME df then DEST_CITY_NAME r
      else if has_DEST df then DEST r
      else ''Unknown'')"

definition load_data :: "dataframe \<Rightarrow> dataframe" where
  "load_data df =
     df\<lparr>rows :=
          map (\<lambda>r. r\<lparr>Dest_Label := dest_label df r\<rparr>)
            (filter (\<lambda>r. 0 < DEPARTURES_PERFORMED r) (filter (\<lambda>r. 0 < SEATS r) (rows df)))\<rparr>"

text \<open>\<^verbatim>\<open>Series.max()\<close>: the maximum of a column, NaN (here \<open>None\<close>) on an empty one.\<close>

fun series_max :: "int list \<Rightarrow> int option" where
  "series_max [] = None"
| "series_max (x # xs) = Some (fold max xs x)"

text \<open>
  \<^verbatim>\<open>groupby(keys)\<close> with pandas' defaults: one group for each distinct key, the groups
  in ascending key order.
\<close>

definition group_keys :: "('r \<Rightarrow> 'k::linorder) \<Rightarrow> 'r list \<Rightarrow> 'k list" where
  "group_keys key rs = sort (remdups (map key rs))"

definition group_of :: "('r \<Rightarrow> 'k) \<Rightarrow> 'r list \<Rightarrow> 'k \<Rightarrow> 'r list" where
  "group_of key rs k = filter (\<lambda>r. key r = k) rs"

subsection \<open>The audit engine\<close>

text \<open>A row of the aggregated table of lines 70--73.\<close>

record agg_row =
  agg_Region :: string
  agg_Dest_Label :: string
  agg_Airline_Label :: string
  agg_PASSENGERS :: real
  agg_SEATS :: real
  agg_DEPARTURES_PERFORMED :: real
  agg_DISTANCE :: real

text \<open>
  The labels of np.select's choices (line 93, each with a pictogram in front in the
  source), and the default \<open>0\<close> that np.select writes where no condition holds.
\<close>

datatype status = Monopoly | Competitive | Minor_Player | Select_Default

text \<open>A row of the table that \<^verbatim>\<open>run_audit\<close> returns.\<close>

record route_aggregate =
  st_Region :: string
  st_Dest_Label :: string
  st_Airline_Label :: string
  st_PASSENGERS :: real
  st_SEATS :: real
  st_DEPARTURES_PERFORMED :: real
  st_DISTANCE :: real
  Yield :: fval
  Revenue :: fval
  Cost :: real
  Profit :: fval
  Margin :: fval
  City_Total :: real
  Market_Share :: fval
  Status :: status

definition row_key :: "row \<Rightarrow> string \<times> string \<times> string" where
  "row_key r = (Region r, Dest_Label r, Airline_Label r)"

definition mean :: "real list \<Rightarrow> real" where
  "mean xs = sum_list xs / real (length xs)"

definition aggregate :: "row list \<Rightarrow> agg_row list" where
  "aggregate data =
     map (\<lambda>k. let g = group_of row_key data k in
            \<lparr>agg_Region = fst k, agg_Dest_Label = fst (snd k), agg_Airline_Label = snd (snd k),
             agg_PASSENGERS = sum_list (map PASSENGERS g),
             agg_SEATS = sum_list (map SEATS g),
             agg_DEPARTURES_PERFORMED = sum_list (map DEPARTURES_PERFORMED g),
             agg_DISTANCE = mean (map DISTANCE g)\<rparr>)
       (group_keys row_key data)"

text \<open>The financial columns of lines 76--80.\<close>

definition yield_of :: "real \<Rightarrow> fval" where
  "yield_of distance = fmul (Fin 0.6) (fpow distance (- 0.15))"

definition revenue_of :: "real \<Rightarrow> real \<Rightarrow> fval" where
  "revenue_of passengers distance = fmul (Fin passengers) (fmul (Fin distance) (yield_of distance))"

definition cost_of :: "real \<Rightarrow> real \<Rightarrow> real" where
  "cost_of distance departures = (((distance / 450) + 0.5) * departures) * (5500 + (850 * 2.80))"

definition profit_of :: "fval \<Rightarrow> real \<Rightarrow> fval" where
  "profit_of revenue cost = fsub revenue (Fin cost)"

definition margin_of :: "fval \<Rightarrow> fval \<Rightarrow> fval" where
  "margin_of profit revenue = fmul (fdiv profit revenue) (Fin 100)"

text \<open>Lines 83--84: the passengers of the aggregated rows, summed for each destination.\<close>

definition city_totals :: "agg_row list \<Rightarrow> (string \<times> real) list" where
  "city_totals stats =
     map (\<lambda>d. (d, sum_list (map agg_PASSENGERS (group_of agg_Dest_Label stats d))))
       (group_keys agg_Dest_Label stats)"

text \<open>
  Line 85: \<^verbatim>\<open>pd.merge(stats, city_totals, on='Dest_Label')\<close>, an inner join that keeps the
  order of the left table.
\<close>

definition merge_on_dest :: "agg_row list \<Rightarrow> (string \<times> real) list \<Rightarrow> (agg_row \<times> real) list" where
  "merge_on_dest stats totals =
     concat (map (\<lambda>a. map (\<lambda>c. (a, snd c)) (filter (\<lambda>c. fst c = agg_Dest_Label a) totals)) stats)"

definition market_share_of :: "real \<Rightarrow> real \<Rightarrow> fval" where
  "market_share_of passengers city_total = fmul (fdiv (Fin passengers) (Fin city_total)) (Fin 100)"

text \<open>\<^verbatim>\<open>np.select\<close>: the choice of the first condition that holds, else the default.\<close>

fun np_select :: "(bool \<times> 'a) list \<Rightarrow> 'a \<Rightarrow> 'a" where
  "np_select [] d = d"
| "np_select ((c, v) # cs) d = (if c then v else np_select cs d)"

definition status_of :: "fval \<Rightarrow> status" where
  "status_of share =
     np_select
       [(fgt share (Fin 50), Monopoly),
        (fgt share (Fin 20) \<and> fle share (Fin 50), Competitive),
        (fle share (Fin 20), Minor_Player)]
       Select_Default"

definition finish_row :: "agg_row \<Rightarrow> real \<Rightarrow> route_aggregate" where
  "finish_row a city_total =
     (let revenue = revenue_of (agg_PASSENGERS a) (agg_DISTANCE a);
          cost = cost_of (agg_DISTANCE a) (agg_DEPARTURES_PERFORMED a);
          profit = profit_of revenue cost;
          share = market_share_of (agg_PASSENGERS a) city_total
      in \<lparr>st_Region = agg_Region a, st_Dest_Label = agg_Dest_Label a,
          st_Airline_Label = agg_Airline_Label a,
          st_PASSENGERS = agg_PASSENGERS a, st_SEATS = agg_SEATS a,
          st_DEPARTURES_PERFORMED = agg_DEPARTURES_PERFORMED a,
          st_DISTANCE = agg_DISTANCE a,
          Yield = yield_of (agg_DISTANCE a), Revenue = revenue, Cost = cost,
          Profit = profit, Margin = margin_of profit revenue,
          City_Total = city_total, Market_Share = share, Status = status_of share\<rparr>)"

text \<open>Lines 64--65: the rows of the hub in the latest year of the whole table.\<close>

definition audit_data :: "dataframe \<Rightarrow> string \<Rightarrow> row list" where
  "audit_data df hub_code =
     (let max_year = series_max (map YEAR (rows df))
      in filter (\<lambda>r. Some (YEAR r) = max_year \<and> ORIGIN r = hub_code) (rows df))"

definition run_audit :: "dataframe \<Rightarrow> string \<Rightarrow> route_aggregate list option" where
  "run_audit df hub_code =
     (let data = audit_data df hub_code in
      if data = [] then None
      else
        (let stats = aggregate data
         in Some (map (\<lambda>m. finish_row (fst m) (snd m)) (merge_on_dest stats (city_totals stats)))))"

subsection \<open>The forecast engine\<close>

text \<open>A row of the monthly table of line 104, and a row of the returned series.\<close>

record monthly_point =
  mp_YEAR :: int
  mp_MONTH :: int
  mp_PASSENGERS :: real

datatype series_kind = Historical | Forecast

record forecast_point =
  fp_YEAR :: int
  fp_MONTH :: int
  fp_PASSENGERS :: real
  fp_Type :: series_kind

text \<open>
  Lines 99--100. \<^verbatim>\<open>df['DEST_CITY_NAME']\<close> is evaluated first and raises KeyError on a
  table without that column; \<^verbatim>\<open>df['DEST']\<close> is evaluated only when the first match is
  empty.
\<close>

definition select_route :: "dataframe \<Rightarrow> string \<Rightarrow> string \<Rightarrow> py_error + row list" where
  "select_route df origin dest =
     (if \<not> has_DEST_CITY_NAME df then Inl (KeyError ''DEST_CITY_NAME'')
      else
        (let route = filter (\<lambda>r. ORIGIN r = origin \<and> DEST_CITY_NAME r = dest) (rows df) in
         if route = [] then
           (if \<not> has_DEST df then Inl (KeyError ''DEST'')
            else Inr (filter (\<lambda>r. ORIGIN r = origin \<and> DEST r = dest) (rows df)))
         else Inr route))"

definition month_key :: "row \<Rightarrow> int \<times> int" where
  "month_key r = (YEAR r, MONTH r)"

definition monthly_series :: "row list \<Rightarrow> monthly_point list" where
  "monthly_series route =
     map (\<lambda>k. \<lparr>mp_YEAR = fst k, mp_MONTH = snd k,
               mp_PASSENGERS = sum_list (map PASSENGERS (group_of month_key route k))\<rparr>)
       (group_keys month_key route)"

text \<open>Line 105: \<^verbatim>\<open>monthly[~monthly['YEAR'].isin([2020, 2021])]\<close>.\<close>

definition training_subset :: "monthly_point list \<Rightarrow> monthly_point list" where
  "training_subset monthly = filter (\<lambda>m. mp_YEAR m \<notin> set [2020, 2021]) monthly"

definition historical :: "monthly_point \<Rightarrow> forecast_point" where
  "historical m =
     \<lparr>fp_YEAR = mp_YEAR m, fp_MONTH = mp_MONTH m, fp_PASSENGERS = mp_PASSENGERS m,
      fp_Type = Historical\<rparr>"

definition future :: "(int \<times> int \<Rightarrow> real) \<Rightarrow> int \<Rightarrow> forecast_point list" where
  "future model last_year =
     map (\<lambda>m. \<lparr>fp_YEAR = last_year + 1, fp_MONTH = m,
               fp_PASSENGERS = model (last_year + 1, m), fp_Type = Forecast\<rparr>)
       [1..12]"

text \<open>
  \<^verbatim>\<open>get_forecast\<close>, lines 98--119. The regressor is a parameter: \<open>fit\<close> takes the
  training table and returns the fitted model, a function from (year, month) to the
  predicted passengers. The random forest of the source is one such \<open>fit\<close>; nothing
  is assumed about it. The result is the raised exception, or the returned pair of the
  series (\<open>None\<close> for Python's None) and the status string.

  \<^verbatim>\<open>monthly['YEAR'].max()\<close> is taken on a table that is not empty when line 112 is
  reached; the NaN branch is kept for totality and cannot be taken.
\<close>

definition get_forecast ::
  "(monthly_point list \<Rightarrow> int \<times> int \<Rightarrow> real) \<Rightarrow> dataframe \<Rightarrow> string \<Rightarrow> string
     \<Rightarrow> py_error + (forecast_point list option \<times> string)" where
  "get_forecast fit df origin dest =
     (case select_route df origin dest of
        Inl e \<Rightarrow> Inl e
      | Inr route \<Rightarrow>
          if route = [] then Inr (None, ''No Data'')
          else
            (let monthly = monthly_series route;
                 clean = training_subset monthly
             in if length clean < 12 then Inr (None, ''Not Enough Data'')
                else
                  (let model = fit clean in
                   case series_max (map mp_YEAR monthly) of
                     None \<Rightarrow> Inl ValueError
                   | Some last_year \<Rightarrow>
                       Inr (Some (map historical monthly @ future model last_year),
                            ''Success''))))"

subsection \<open>Derived notions used in the statements\<close>

text \<open>The passengers of all aggregated rows of one destination (one entry of line 83).\<close>

definition dest_total :: "agg_row list \<Rightarrow> string \<Rightarrow> real" where
  "dest_total stats d = sum_list (map agg_PASSENGERS (group_of agg_Dest_Label stats d))"

text \<open>The grouping key of a row of the audit result.\<close>

definition st_key :: "route_aggregate \<Rightarrow> string \<times> string \<times> string" where
  "st_key s = (st_Region s, st_Dest_Label s, st_Airline_Label s)"


text \<open>
  A stand-in for the regressor in the examples: it predicts the mean of the training
  passengers for every month.
\<close>

definition mean_model :: "monthly_point list \<Rightarrow> int \<times> int \<Rightarrow> real" where
  "mean_model train x = mean (map mp_PASSENGERS train)"

subsection \<open>Example tables\<close>

text \<open>
  A raw row as a CSV file gives it: region \<open>UK\<close>, 100 seats, and no \<open>Dest_Label\<close> yet
  (\<open>load_data\<close> fills it in).
\<close>

definition mk_row :: "int \<Rightarrow> int \<Rightarrow> string \<Rightarrow> string \<Rightarrow> string \<Rightarrow> string \<Rightarrow> real \<Rightarrow> real \<Rightarrow> real \<Rightarrow> row" where
  "mk_row y m origin dest city airline passengers departures distance =
     \<lparr>YEAR = y, MONTH = m, ORIGIN = origin, DEST = dest, DEST_CITY_NAME = city,
      Region = ''UK'', Dest_Label = [], Airline_Label = airline,
      PASSENGERS = passengers, SEATS = 100, DEPARTURES_PERFORMED = departures,
      DISTANCE = distance\<rparr>"

text \<open>A hub (JFK) whose only row is one year older than the latest year of the table.\<close>

definition older_hub_table :: dataframe where
  "older_hub_table = load_data \<lparr>has_DEST_CITY_NAME = True, has_DEST = True,
     rows = [mk_row 2022 5 ''JFK'' ''LHR'' ''London'' ''AA'' 1000 10 3000,
             mk_row 2023 5 ''LAX'' ''LHR'' ''London'' ''AA'' 1000 10 5000]\<rparr>"

text \<open>
  Two rows of one (region, destination, airline) group in the latest year, with mean
  distance 1, and an older row of the same hub.
\<close>

definition two_leg_table :: dataframe where
  "two_leg_table = load_data \<lparr>has_DEST_CITY_NAME = True, has_DEST = True,
     rows = [mk_row 2023 1 ''JFK'' ''LHR'' ''London'' ''AA'' 1000 10 (1/2),
             mk_row 2023 2 ''JFK'' ''LHR'' ''London'' ''AA'' 500 5 (3/2),
             mk_row 2022 2 ''JFK'' ''LHR'' ''London'' ''AA'' 70 7 9]\<rparr>"

text \<open>
  One destination all of whose rows carried no passengers (seats and departures are
  positive, so \<open>load_data\<close> keeps the row).
\<close>

definition zero_passenger_table :: dataframe where
  "zero_passenger_table = load_data \<lparr>has_DEST_CITY_NAME = True, has_DEST = True,
     rows = [mk_row 2023 1 ''JFK'' ''LHR'' ''London'' ''AA'' 0 1 1]\<rparr>"

text \<open>
  A table given to \<open>run_audit\<close> directly, with a row without passengers and without
  departures (\<open>load_data\<close> would drop such a row).
\<close>

definition no_departure_table :: dataframe where
  "no_departure_table = \<lparr>has_DEST_CITY_NAME = True, has_DEST = True,
     rows = [(mk_row 2023 1 ''JFK'' ''LHR'' ''London'' ''AA'' 0 0 1)\<lparr>Dest_Label := ''London''\<rparr>]\<rparr>"

text \<open>Two airlines on one destination, with 1000 and 500 passengers.\<close>

definition two_airline_table :: dataframe where
  "two_airline_table = load_data \<lparr>has_DEST_CITY_NAME = True, has_DEST = True,
     rows = [mk_row 2023 1 ''JFK'' ''LHR'' ''London'' ''BA'' 500 10 1,
             mk_row 2023 1 ''JFK'' ''LHR'' ''London'' ''AA'' 1000 10 1]\<rparr>"

text \<open>Rows of the route JFK to London (LHR), one for each month given.\<close>

definition month_row :: "int \<Rightarrow> int \<Rightarrow> real \<Rightarrow> row" where
  "month_row y m passengers = mk_row y m ''JFK'' ''LHR'' ''London'' ''AA'' passengers 10 3000"

definition route_table :: "row list \<Rightarrow> dataframe" where
  "route_table rs = load_data \<lparr>has_DEST_CITY_NAME = True, has_DEST = True, rows = rs\<rparr>"

definition year_2019 :: "row list" where
  "year_2019 = map (\<lambda>m. month_row 2019 m 100) [1..12]"

text \<open>The twelve months of 2019 and two rows of April 2020.\<close>

definition covid_table :: dataframe where
  "covid_table = route_table (month_row 2020 4 3 # month_row 2020 4 4 # year_2019)"

text \<open>Eleven months of 2019, one month of 2020 and one of 2021.\<close>

definition short_table :: dataframe where
  "short_table =
     route_table (month_row 2020 4 3 # month_row 2021 4 4 # map (\<lambda>m. month_row 2019 m 100) [2..12])"

definition mk_point :: "int \<Rightarrow> int \<Rightarrow> real \<Rightarrow> monthly_point" where
  "mk_point y m p = \<lparr>mp_YEAR = y, mp_MONTH = m, mp_PASSENGERS = p\<rparr>"

text \<open>
  A table that carries airport codes only: it has the column \<open>DEST\<close> and no column
  \<open>DEST_CITY_NAME\<close>, so \<open>load_data\<close> labels the destination by its code.
\<close>

definition codes_only_table :: dataframe where
  "codes_only_table = load_data \<lparr>has_DEST_CITY_NAME = False, has_DEST = True,
     rows = [mk_row 2023 1 ''JFK'' ''LHR'' [] ''AA'' 1000 10 1]\<rparr>"

section \<open>Properties\<close>

subsection \<open>Grouping and the join with the city totals\<close>

lemma set_group_keys: "set (group_keys key rs) = key ` set rs"
  by (simp add: group_keys_def)

lemma distinct_group_keys: "distinct (group_keys key rs)"
  by (simp add: group_keys_def)


lemma filter_eq_distinct:
  "distinct ks \<Longrightarrow> k \<in> set ks \<Longrightarrow> filter (\<lambda>x. x = k) ks = [k]"
  by (induction ks) (auto simp: filter_empty_conv)

lemma city_totals_lookup:
  assumes "d \<in> agg_Dest_Label ` set stats"
  shows "filter (\<lambda>c. fst c = d) (city_totals stats) = [(d, dest_total stats d)]"
proof -
  have "filter (\<lambda>c. fst c = d) (city_totals stats)
        = map (\<lambda>d. (d, dest_total stats d)) (filter (\<lambda>x. x = d) (group_keys agg_Dest_Label stats))"
    by (simp add: city_totals_def dest_total_def filter_map o_def)
  also have "filter (\<lambda>x. x = d) (group_keys agg_Dest_Label stats) = [d]"
    using assms by (intro filter_eq_distinct) (simp_all add: distinct_group_keys set_group_keys)
  finally show ?thesis by simp
qed

lemma merge_on_dest_city_totals:
  "merge_on_dest stats (city_totals stats) = map (\<lambda>a. (a, dest_total stats (agg_Dest_Label a))) stats"
proof -
  have "\<forall>a \<in> set xs. a \<in> set stats \<Longrightarrow>
     concat (map (\<lambda>a. map (\<lambda>c. (a, snd c)) (filter (\<lambda>c. fst c = agg_Dest_Label a) (city_totals stats))) xs)
     = map (\<lambda>a. (a, dest_total stats (agg_Dest_Label a))) xs" for xs
    by (induction xs) (simp_all add: city_totals_lookup)
  from this[of stats] show ?thesis by (simp add: merge_on_dest_def)
qed

lemma run_audit_Some:
  "run_audit df hub = Some st \<longleftrightarrow>
     audit_data df hub \<noteq> [] \<and>
     st = map (\<lambda>a. finish_row a (dest_total (aggregate (audit_data df hub)) (agg_Dest_Label a)))
            (aggregate (audit_data df hub))"
  by (auto simp: run_audit_def Let_def merge_on_dest_city_totals o_def)

lemma yield_of_pos: "0 < d \<Longrightarrow> yield_of d = Fin (0.6 * d powr (- 0.15))"
  by (simp add: yield_of_def fpow_def)

lemma revenue_of_pos: "0 < d \<Longrightarrow> revenue_of p d = Fin (p * d * (0.6 * d powr (- 0.15)))"
  by (simp add: revenue_of_def yield_of_pos)

lemma cost_of_eq: "cost_of d n = ((d / 450) + 0.5) * n * 7880"
  by (simp add: cost_of_def)

lemma st_key_finish_row: "st_key (finish_row a t) = (agg_Region a, agg_Dest_Label a, agg_Airline_Label a)"
  by (simp add: st_key_def finish_row_def Let_def)

lemma keys_run_audit:
  assumes "run_audit df hub = Some st"
  shows "map st_key st = group_keys row_key (audit_data df hub)"
  using assms by (simp add: run_audit_Some aggregate_def o_def st_key_finish_row Let_def)

subsection \<open>The audit result against the reference computation\<close>

text \<open>
  Claim C1. The audit result has exactly one row for each (region, dest_label,
  airline_label) group of the hub's latest-year rows, in ascending key order. In each row
  passengers, seats and departures_performed are the sums over the group (which is not
  empty), distance is the arithmetic mean over the group, and cost is
  \<open>((distance / 450) + 0.5) * departures_performed * (5500 + 850 * 2.80)\<close>. For a positive
  mean distance (the data model's distances are positive) the yield is
  \<open>0.6 * distance powr (-0.15)\<close>, the revenue is passengers * distance * yield and the
  profit is revenue - cost, all finite.
\<close>

theorem audit_row_reference:
  assumes "run_audit df hub = Some st"
  shows "map st_key st = group_keys row_key (audit_data df hub)
    \<and> (\<forall>s \<in> set st.
         group_of row_key (audit_data df hub) (st_key s) \<noteq> []
       \<and> st_PASSENGERS s = sum_list (map PASSENGERS (group_of row_key (audit_data df hub) (st_key s)))
       \<and> st_SEATS s = sum_list (map SEATS (group_of row_key (audit_data df hub) (st_key s)))
       \<and> st_DEPARTURES_PERFORMED s =
           sum_list (map DEPARTURES_PERFORMED (group_of row_key (audit_data df hub) (st_key s)))
       \<and> st_DISTANCE s =
           sum_list (map DISTANCE (group_of row_key (audit_data df hub) (st_key s)))
             / real (length (group_of row_key (audit_data df hub) (st_key s)))
       \<and> Cost s = ((st_DISTANCE s / 450) + 0.5) * st_DEPARTURES_PERFORMED s * (5500 + 850 * 2.80)
       \<and> (0 < st_DISTANCE s \<longrightarrow>
             Yield s = Fin (0.6 * st_DISTANCE s powr (- 0.15))
           \<and> Revenue s = Fin (st_PASSENGERS s * st_DISTANCE s * (0.6 * st_DISTANCE s powr (- 0.15)))
           \<and> Profit s =
               Fin (st_PASSENGERS s * st_DISTANCE s * (0.6 * st_DISTANCE s powr (- 0.15)) - Cost s)))"
    (is "?keys \<and> (\<forall>s \<in> set st. ?row s)")
proof (rule conjI)
  show ?keys using assms by (rule keys_run_audit)
next
  let ?data = "audit_data df hub"
  have "?row s" if "s \<in> set st" for s
  proof -
    from assms that obtain a where a: "a \<in> set (aggregate ?data)"
      and s: "s = finish_row a (dest_total (aggregate ?data) (agg_Dest_Label a))"
      by (auto simp: run_audit_Some)
    from a obtain k where k: "k \<in> row_key ` set ?data"
      and ak: "a = \<lparr>agg_Region = fst k, agg_Dest_Label = fst (snd k), agg_Airline_Label = snd (snd k),
               agg_PASSENGERS = sum_list (map PASSENGERS (group_of row_key ?data k)),
               agg_SEATS = sum_list (map SEATS (group_of row_key ?data k)),
               agg_DEPARTURES_PERFORMED = sum_list (map DEPARTURES_PERFORMED (group_of row_key ?data k)),
               agg_DISTANCE = mean (map DISTANCE (group_of row_key ?data k))\<rparr>"
      by (auto simp: aggregate_def Let_def set_group_keys)
    have key: "st_key s = k" by (simp add: s st_key_finish_row ak)
    from k have ne: "group_of row_key ?data k \<noteq> []"
      by (auto simp: group_of_def filter_empty_conv)
    show ?thesis
      unfolding key using ne
      by (simp add: s finish_row_def Let_def ak mean_def cost_of_def
          yield_of_pos revenue_of_pos profit_of_def fsub_def)
  qed
  then show "\<forall>s \<in> set st. ?row s" by (rule ballI)
qed

lemma audit_data_two_leg_table:
  "audit_data two_leg_table ''JFK'' =
     [(mk_row 2023 1 ''JFK'' ''LHR'' ''London'' ''AA'' 1000 10 (1/2))\<lparr>Dest_Label := ''London''\<rparr>,
      (mk_row 2023 2 ''JFK'' ''LHR'' ''London'' ''AA'' 500 5 (3/2))\<lparr>Dest_Label := ''London''\<rparr>]"
  by (simp add: audit_data_def two_leg_table_def load_data_def dest_label_def mk_row_def)

theorem audit_row_reference_witness:
  "\<exists>s. run_audit two_leg_table ''JFK'' = Some [s]
     \<and> st_key s = (''UK'', ''London'', ''AA'')
     \<and> st_PASSENGERS s = 1500 \<and> st_SEATS s = 200 \<and> st_DEPARTURES_PERFORMED s = 15
     \<and> st_DISTANCE s = 1 \<and> Cost s = (1 / 450 + 1 / 2) * 15 * 7880
     \<and> Yield s = Fin (6 / 10) \<and> Revenue s = Fin 900
     \<and> Profit s = Fin (900 - (1 / 450 + 1 / 2) * 15 * 7880)"
proof -
  let ?data = "audit_data two_leg_table ''JFK''"
  obtain st where st: "run_audit two_leg_table ''JFK'' = Some st"
    by (cases "run_audit two_leg_table ''JFK''")
       (simp_all add: run_audit_def Let_def audit_data_two_leg_table)
  have keys: "group_keys row_key ?data = [(''UK'', ''London'', ''AA'')]"
    by (simp add: audit_data_two_leg_table group_keys_def row_key_def mk_row_def)
  from audit_row_reference[OF st] keys obtain s where s: "st = [s]"
    and k: "st_key s = (''UK'', ''London'', ''AA'')"
    by (cases st) auto
  have g: "group_of row_key ?data (st_key s) = ?data"
    by (simp add: k audit_data_two_leg_table group_of_def row_key_def mk_row_def)
  have mem: "s \<in> set st" by (simp add: s)
  note ref = audit_row_reference[OF st, THEN conjunct2, THEN bspec, OF mem, unfolded g]
  from ref have "st_PASSENGERS s = 1500 \<and> st_SEATS s = 200 \<and> st_DEPARTURES_PERFORMED s = 15
     \<and> st_DISTANCE s = 1 \<and> Cost s = (1 / 450 + 1 / 2) * 15 * 7880
     \<and> Yield s = Fin (6 / 10) \<and> Revenue s = Fin 900
     \<and> Profit s = Fin (900 - (1 / 450 + 1 / 2) * 15 * 7880)"
    by (simp add: audit_data_two_leg_table mk_row_def)
  with st s k show ?thesis by blast
qed

subsection \<open>The latest-year filter and the absent result\<close>

lemma fold_max_Max: "fold max xs (x::int) = Max (set (x # xs))"
  using Max.set_eq_fold[of x xs] by simp

lemma series_max_Some_iff:
  "series_max ys = Some m \<longleftrightarrow> m \<in> set ys \<and> (\<forall>y \<in> set ys. y \<le> m)"
proof (cases ys)
  case Nil
  then show ?thesis by simp
next
  case (Cons x xs)
  have "fold max xs x = m \<longleftrightarrow> m \<in> set (x # xs) \<and> (\<forall>y \<in> set (x # xs). y \<le> m)"
    unfolding fold_max_Max by (rule Max_eq_iff) simp_all
  with Cons show ?thesis by simp
qed

lemma audit_data_eq:
  "audit_data df hub =
     filter (\<lambda>r. (\<forall>r' \<in> set (rows df). YEAR r' \<le> YEAR r) \<and> ORIGIN r = hub) (rows df)"
proof -
  have "Some (YEAR r) = series_max (map YEAR (rows df)) \<longleftrightarrow> (\<forall>r' \<in> set (rows df). YEAR r' \<le> YEAR r)"
    if "r \<in> set (rows df)" for r
    using that series_max_Some_iff[of "map YEAR (rows df)" "YEAR r"] by auto
  then show ?thesis
    unfolding audit_data_def Let_def by (intro filter_cong) auto
qed

text \<open>
  Claim C5. The rows the audit keeps are those of the hub whose year is the maximum year
  of the whole table, whatever their origin; \<open>run_audit\<close> returns \<open>None\<close>, and raises
  nothing, exactly when no row is kept. So the result is absent exactly when every row of
  the hub is older than some row of the table.
\<close>

theorem audit_latest_year_filter:
  "audit_data df hub =
     filter (\<lambda>r. (\<forall>r' \<in> set (rows df). YEAR r' \<le> YEAR r) \<and> ORIGIN r = hub) (rows df)
   \<and> (run_audit df hub = None \<longleftrightarrow> audit_data df hub = [])
   \<and> (run_audit df hub = None \<longleftrightarrow>
        (\<forall>r \<in> set (rows df). ORIGIN r = hub \<longrightarrow> (\<exists>r' \<in> set (rows df). YEAR r < YEAR r')))"
proof -
  have 1: "run_audit df hub = None \<longleftrightarrow> audit_data df hub = []"
    by (simp add: run_audit_def Let_def)
  have 2: "audit_data df hub = [] \<longleftrightarrow>
        (\<forall>r \<in> set (rows df). ORIGIN r = hub \<longrightarrow> (\<exists>r' \<in> set (rows df). YEAR r < YEAR r'))"
    unfolding audit_data_eq filter_empty_conv by (auto simp: not_le)
  show ?thesis using 1 2 audit_data_eq by simp
qed

lemma rows_older_hub_table:
  "rows older_hub_table =
     [(mk_row 2022 5 ''JFK'' ''LHR'' ''London'' ''AA'' 1000 10 3000)\<lparr>Dest_Label := ''London''\<rparr>,
      (mk_row 2023 5 ''LAX'' ''LHR'' ''London'' ''AA'' 1000 10 5000)\<lparr>Dest_Label := ''London''\<rparr>]"
  by (simp add: older_hub_table_def load_data_def dest_label_def mk_row_def)

theorem audit_latest_year_filter_witness:
  "run_audit older_hub_table ''JFK'' = None \<and> run_audit older_hub_table ''LAX'' \<noteq> None"
proof -
  have "\<forall>r \<in> set (rows older_hub_table). ORIGIN r = ''JFK'' \<longrightarrow>
          (\<exists>r' \<in> set (rows older_hub_table). YEAR r < YEAR r')"
    by (simp add: rows_older_hub_table mk_row_def)
  moreover have "\<not> (\<forall>r \<in> set (rows older_hub_table). ORIGIN r = ''LAX'' \<longrightarrow>
          (\<exists>r' \<in> set (rows older_hub_table). YEAR r < YEAR r'))"
    by (simp add: rows_older_hub_table mk_row_def)
  ultimately show ?thesis
    using audit_latest_year_filter[of older_hub_table "''JFK''"]
      audit_latest_year_filter[of older_hub_table "''LAX''"] by blast
qed

subsection \<open>Evaluating the audit on the example tables\<close>

lemmas audit_eval =
  run_audit_def audit_data_def aggregate_def group_keys_def group_of_def row_key_def
  city_totals_def merge_on_dest_def finish_row_def Let_def mean_def yield_of_def
  revenue_of_def cost_of_def profit_of_def margin_of_def market_share_of_def status_of_def
  fpow_def fsub_def fle_def inf_times_def load_data_def dest_label_def mk_row_def

lemma run_audit_zero_passenger_table:
  "run_audit zero_passenger_table ''JFK'' =
     Some [\<lparr>st_Region = ''UK'', st_Dest_Label = ''London'', st_Airline_Label = ''AA'',
            st_PASSENGERS = 0, st_SEATS = 100, st_DEPARTURES_PERFORMED = 1, st_DISTANCE = 1,
            Yield = Fin (6 / 10), Revenue = Fin 0, Cost = 178088 / 45,
            Profit = Fin (- (178088 / 45)), Margin = NInf,
            City_Total = 0, Market_Share = NaN, Status = Select_Default\<rparr>]"
  by (simp add: zero_passenger_table_def audit_eval)

lemma run_audit_no_departure_table:
  "run_audit no_departure_table ''JFK'' =
     Some [\<lparr>st_Region = ''UK'', st_Dest_Label = ''London'', st_Airline_Label = ''AA'',
            st_PASSENGERS = 0, st_SEATS = 100, st_DEPARTURES_PERFORMED = 0, st_DISTANCE = 1,
            Yield = Fin (6 / 10), Revenue = Fin 0, Cost = 0,
            Profit = Fin 0, Margin = NaN,
            City_Total = 0, Market_Share = NaN, Status = Select_Default\<rparr>]"
  by (simp add: no_departure_table_def audit_eval)

lemma run_audit_two_airline_table:
  "map_option (map (\<lambda>s. (st_key s, st_PASSENGERS s, City_Total s, Market_Share s, Status s)))
     (run_audit two_airline_table ''JFK'') =
   Some [((''UK'', ''London'', ''AA''), 1000, 1500, Fin (200 / 3), Monopoly),
         ((''UK'', ''London'', ''BA''), 500, 1500, Fin (100 / 3), Competitive)]"
  by (simp add: two_airline_table_def audit_eval st_key_def)

lemma finish_row_fields:
  "Revenue (finish_row a t) = revenue_of (agg_PASSENGERS a) (agg_DISTANCE a)"
  "Cost (finish_row a t) = cost_of (agg_DISTANCE a) (agg_DEPARTURES_PERFORMED a)"
  "Profit (finish_row a t) = profit_of (Revenue (finish_row a t)) (Cost (finish_row a t))"
  "Margin (finish_row a t) = margin_of (Profit (finish_row a t)) (Revenue (finish_row a t))"
  "City_Total (finish_row a t) = t"
  "st_PASSENGERS (finish_row a t) = agg_PASSENGERS a"
  "st_Dest_Label (finish_row a t) = agg_Dest_Label a"
  "Market_Share (finish_row a t) = market_share_of (agg_PASSENGERS a) t"
  "Status (finish_row a t) = status_of (Market_Share (finish_row a t))"
  by (simp_all add: finish_row_def Let_def)

subsection \<open>The status classification\<close>

lemma status_of_Fin:
  "status_of (Fin x) = (if 50 < x then Monopoly else if 20 < x then Competitive else Minor_Player)"
  by (simp add: status_of_def fle_def)

lemma status_of_NaN: "status_of NaN = Select_Default"
  by (simp add: status_of_def fle_def)

text \<open>
  On a share that is a number the classification is total and exclusive, with the
  boundaries 50 and 20 in the lower bucket: above 50 is Monopoly, above 20 and at most 50
  is Competitive, at most 20 is Minor Player, and np.select's default is never written.
\<close>

theorem status_of_cases:
  "(status_of (Fin x) = Monopoly \<longleftrightarrow> 50 < x)
   \<and> (status_of (Fin x) = Competitive \<longleftrightarrow> 20 < x \<and> x \<le> 50)
   \<and> (status_of (Fin x) = Minor_Player \<longleftrightarrow> x \<le> 20)
   \<and> status_of (Fin x) \<noteq> Select_Default"
  by (auto simp: status_of_Fin)

text \<open>
  Claim C2 (every row of the audit result has exactly one of the three statuses). The
  three conditions of lines 88--92 cover every number, but not NaN. Where all airlines of
  a destination carried no passengers, \<open>City_Total\<close> is 0, the share is \<open>0 / 0 * 100\<close>, that
  is NaN, every comparison with it is false, and np.select writes its default: the row
  has none of the three statuses.
\<close>

theorem status_default_on_zero_city_total:
  "map_option (map (\<lambda>s. (st_PASSENGERS s, City_Total s, Market_Share s, Status s)))
     (run_audit zero_passenger_table ''JFK'') = Some [(0, 0, NaN, Select_Default)]"
  by (simp add: run_audit_zero_passenger_table)

subsection \<open>The margin\<close>

text \<open>
  Claim C4 as stated (a row with revenue 0 has an explicitly defined margin, never the
  result of a division by zero) fails: line 80 divides with no guard. On the first table
  the revenue is 0 and the profit is negative, and the margin is \<open>-inf\<close>; on the second
  revenue and profit are both 0 and the margin is NaN.
\<close>

theorem margin_zero_revenue_counterexample:
  "map_option (map (\<lambda>s. (Revenue s, Margin s))) (run_audit zero_passenger_table ''JFK'')
     = Some [(Fin 0, NInf)]
   \<and> map_option (map (\<lambda>s. (Revenue s, Margin s))) (run_audit no_departure_table ''JFK'')
     = Some [(Fin 0, NaN)]"
  by (simp add: run_audit_zero_passenger_table run_audit_no_departure_table)

text \<open>
  Claim C4, amended. For a row whose revenue is the finite number \<open>r\<close>, the profit is
  \<open>r - cost\<close>; the margin is the finite number \<open>(r - cost) / r * 100\<close> when \<open>r\<close> is not 0,
  and when \<open>r\<close> is 0 it is the float result of the unguarded division: NaN for profit 0,
  \<open>+inf\<close> for a positive and \<open>-inf\<close> for a negative profit.
\<close>

theorem margin_unguarded_quotient:
  assumes "run_audit df hub = Some st" and "s \<in> set st" and "Revenue s = Fin r"
  shows "Profit s = Fin (r - Cost s)
    \<and> Margin s =
        (if r \<noteq> 0 then Fin ((r - Cost s) / r * 100)
         else if Cost s = 0 then NaN
         else if Cost s < 0 then PInf
         else NInf)"
proof -
  from assms(1,2) obtain a t where s: "s = finish_row a t"
    by (auto simp: run_audit_Some)
  have p: "Profit s = Fin (r - Cost s)"
    using assms(3) unfolding s finish_row_fields(3) by (simp add: profit_of_def fsub_def)
  have "Margin s = fmul (fdiv (Fin (r - Cost s)) (Fin r)) (Fin 100)"
    using p assms(3) unfolding s finish_row_fields(4) by (simp add: margin_of_def)
  then show ?thesis using p by (simp add: inf_times_def)
qed

theorem margin_unguarded_quotient_witness:
  "\<exists>s. run_audit zero_passenger_table ''JFK'' = Some [s] \<and> Revenue s = Fin 0
      \<and> Cost s = 178088 / 45 \<and> Profit s = Fin (0 - 178088 / 45) \<and> Margin s = NInf"
proof -
  obtain s where st: "run_audit zero_passenger_table ''JFK'' = Some [s]"
    and r: "Revenue s = Fin 0" and c: "Cost s = 178088 / 45"
    by (simp add: run_audit_zero_passenger_table)
  have "s \<in> set [s]" by simp
  from margin_unguarded_quotient[OF st this r] c
  have "Profit s = Fin (0 - 178088 / 45) \<and> Margin s = NInf" by simp
  with st r c show ?thesis by blast
qed

subsection \<open>Market shares\<close>







subsection \<open>The forecast engine: the shape of a call\<close>

lemma upto_1_12: "[1..12] = [1,2,3,4,5,6,7,8,9,10,11,12::int]"
  by (simp add: upto_rec1)

lemma select_route_covid_table:
  "select_route covid_table ''JFK'' ''London'' = Inr (rows covid_table)"
  by (simp add: select_route_def covid_table_def route_table_def load_data_def dest_label_def
      month_row_def mk_row_def year_2019_def upto_1_12)

lemma monthly_series_covid_table:
  "monthly_series (rows covid_table) =
     map (\<lambda>m. mk_point 2019 m 100) [1..12] @ [mk_point 2020 4 7]"
  by (simp add: monthly_series_def group_keys_def group_of_def month_key_def
      covid_table_def route_table_def load_data_def dest_label_def
      month_row_def mk_row_def year_2019_def upto_1_12 mk_point_def)

lemma set_monthly_series_keys:
  "map (\<lambda>p. (mp_YEAR p, mp_MONTH p)) (monthly_series route) = group_keys month_key route"
  by (simp add: monthly_series_def o_def)

lemma monthly_series_Nil: "monthly_series route = [] \<longleftrightarrow> route = []"
proof -
  have "monthly_series route = [] \<longleftrightarrow> set (group_keys month_key route) = {}"
    by (simp add: monthly_series_def)
  then show ?thesis by (simp add: set_group_keys)
qed

lemma series_max_None: "series_max ys = None \<longleftrightarrow> ys = []"
  by (cases ys) simp_all

lemma get_forecast_matched:
  assumes "select_route df origin dest = Inr route" and "route \<noteq> []"
  shows "get_forecast fit df origin dest =
     (if length (training_subset (monthly_series route)) < 12 then Inr (None, ''Not Enough Data'')
      else Inr (Some (map historical (monthly_series route)
                  @ future (fit (training_subset (monthly_series route)))
                      (the (series_max (map mp_YEAR (monthly_series route))))),
                ''Success''))"
proof -
  from assms(2) have "series_max (map mp_YEAR (monthly_series route)) \<noteq> None"
    by (simp add: series_max_None monthly_series_Nil)
  then obtain ly where "series_max (map mp_YEAR (monthly_series route)) = Some ly" by blast
  with assms show ?thesis by (simp add: get_forecast_def Let_def)
qed


lemma select_route_with_columns:
  assumes "has_DEST_CITY_NAME df" and "has_DEST df"
  shows "select_route df origin dest =
     Inr (if filter (\<lambda>r. ORIGIN r = origin \<and> DEST_CITY_NAME r = dest) (rows df) \<noteq> []
          then filter (\<lambda>r. ORIGIN r = origin \<and> DEST_CITY_NAME r = dest) (rows df)
          else filter (\<lambda>r. ORIGIN r = origin \<and> DEST r = dest) (rows df))"
  using assms by (simp add: select_route_def Let_def)

subsection \<open>No data\<close>

text \<open>
  On a table that has both destination columns, \<open>get_forecast\<close> raises nothing; it matches
  the city name first and the code second, and returns the status \<open>No Data\<close> exactly when
  both matches are empty.
\<close>

theorem forecast_no_data_with_columns:
  assumes "has_DEST_CITY_NAME df" and "has_DEST df"
  shows "\<exists>res status. get_forecast fit df origin dest = Inr (res, status)
     \<and> (status = ''No Data'' \<longleftrightarrow>
          filter (\<lambda>r. ORIGIN r = origin \<and> DEST_CITY_NAME r = dest) (rows df) = []
        \<and> filter (\<lambda>r. ORIGIN r = origin \<and> DEST r = dest) (rows df) = [])"
proof -
  let ?city = "filter (\<lambda>r. ORIGIN r = origin \<and> DEST_CITY_NAME r = dest) (rows df)"
  let ?code = "filter (\<lambda>r. ORIGIN r = origin \<and> DEST r = dest) (rows df)"
  let ?route = "if ?city \<noteq> [] then ?city else ?code"
  have sel: "select_route df origin dest = Inr ?route"
    using assms by (rule select_route_with_columns)
  show ?thesis
  proof (cases "?route = []")
    case True
    then have "?city = [] \<and> ?code = []" by (simp split: if_splits)
    moreover from True sel have "get_forecast fit df origin dest = Inr (None, ''No Data'')"
      by (simp add: get_forecast_def)
    ultimately show ?thesis by simp
  next
    case False
    then have "\<not> (?city = [] \<and> ?code = [])" by (simp split: if_splits)
    then show ?thesis
      unfolding get_forecast_matched[OF sel False] by simp
  qed
qed

theorem forecast_no_data_with_columns_witness:
  "\<forall>fit. \<exists>res. get_forecast fit covid_table ''JFK'' ''Paris'' = Inr (res, ''No Data'')"
proof -
  have c: "has_DEST_CITY_NAME covid_table" and d: "has_DEST covid_table"
    by (simp_all add: covid_table_def route_table_def load_data_def)
  have "filter (\<lambda>r. ORIGIN r = ''JFK'' \<and> DEST_CITY_NAME r = ''Paris'') (rows covid_table) = []
      \<and> filter (\<lambda>r. ORIGIN r = ''JFK'' \<and> DEST r = ''Paris'') (rows covid_table) = []"
    by (simp add: covid_table_def route_table_def load_data_def dest_label_def
        month_row_def mk_row_def year_2019_def upto_1_12)
  with forecast_no_data_with_columns[OF c d, of _ "''JFK''" "''Paris''"] show ?thesis
    by blast
qed

text \<open>
  Claim C6 (also on a table that carries airport codes only and has no city-name column,
  the engine retries on the code column and never raises). Line 99 reads
  \<^verbatim>\<open>df['DEST_CITY_NAME']\<close> before anything else; on such a table, which \<open>load_data\<close>
  accepts (line 48 falls back to \<open>DEST\<close>), this is a KeyError, although the match on the
  code column is not empty.
\<close>

theorem forecast_raises_without_city_column:
  "filter (\<lambda>r. ORIGIN r = ''JFK'' \<and> DEST r = ''LHR'') (rows codes_only_table) \<noteq> []
   \<and> get_forecast fit codes_only_table ''JFK'' ''LHR'' = Inl (KeyError ''DEST_CITY_NAME'')"
  by (simp add: get_forecast_def select_route_def codes_only_table_def load_data_def
      dest_label_def mk_row_def)

subsection \<open>Not enough data\<close>

text \<open>
  Claim C8. For a matched route whose training subset has fewer than 12 monthly points,
  the result is \<open>None\<close> with the status \<open>Not Enough Data\<close>, whatever the regressor: no model
  is fitted and nothing is predicted.
\<close>

theorem not_enough_data:
  assumes "select_route df origin dest = Inr route" and "route \<noteq> []"
    and "length (training_subset (monthly_series route)) < 12"
  shows "get_forecast fit df origin dest = Inr (None, ''Not Enough Data'')"
  using assms by (simp add: get_forecast_matched)

lemma select_route_short_table:
  "select_route short_table ''JFK'' ''London'' = Inr (rows short_table)"
  by (simp add: select_route_def short_table_def route_table_def load_data_def dest_label_def
      month_row_def mk_row_def upto_rec1)

lemma monthly_series_short_table:
  "monthly_series (rows short_table) =
     map (\<lambda>m. mk_point 2019 m 100) [2..12] @ [mk_point 2020 4 3, mk_point 2021 4 4]"
  by (simp add: monthly_series_def group_keys_def group_of_def month_key_def
      short_table_def route_table_def load_data_def dest_label_def
      month_row_def mk_row_def mk_point_def upto_rec1)

theorem not_enough_data_witness:
  "length (monthly_series (rows short_table)) = 13
   \<and> length (training_subset (monthly_series (rows short_table))) = 11
   \<and> (\<forall>fit. get_forecast fit short_table ''JFK'' ''London'' = Inr (None, ''Not Enough Data''))"
proof -
  have ne: "rows short_table \<noteq> []"
    by (simp add: short_table_def route_table_def load_data_def month_row_def mk_row_def)
  have l: "length (monthly_series (rows short_table)) = 13"
    by (simp add: monthly_series_short_table upto_rec1)
  have t: "length (training_subset (monthly_series (rows short_table))) = 11"
    by (simp add: monthly_series_short_table training_subset_def mk_point_def upto_rec1)
  then have "length (training_subset (monthly_series (rows short_table))) < 12" by simp
  from not_enough_data[OF select_route_short_table ne this] l t show ?thesis by simp
qed

subsection \<open>The training subset\<close>

lemma training_subset_years:
  "set (training_subset monthly) = {m \<in> set monthly. mp_YEAR m \<noteq> 2020 \<and> mp_YEAR m \<noteq> 2021}"
  by (auto simp: training_subset_def)

text \<open>
  Claim C7. For a matched route the training subset is the monthly points whose year is
  neither 2020 nor 2021, with no parameter to change that; the result depends on the
  regressor only through the model fitted on this subset; and in a successful result the
  Historical points are all monthly points, so every row of the route, those of 2020 and
  2021 included, has its Historical point.
\<close>

theorem training_excludes_2020_2021:
  assumes "select_route df origin dest = Inr route" and "route \<noteq> []"
  shows "set (training_subset (monthly_series route))
           = {m \<in> set (monthly_series route). mp_YEAR m \<noteq> 2020 \<and> mp_YEAR m \<noteq> 2021}
    \<and> (\<forall>fit'. fit' (training_subset (monthly_series route)) = fit (training_subset (monthly_series route))
          \<longrightarrow> get_forecast fit' df origin dest = get_forecast fit df origin dest)
    \<and> (\<forall>series. get_forecast fit df origin dest = Inr (Some series, ''Success'') \<longrightarrow>
          filter (\<lambda>p. fp_Type p = Historical) series = map historical (monthly_series route)
        \<and> (\<forall>r \<in> set route. \<exists>p \<in> set series.
              fp_Type p = Historical \<and> fp_YEAR p = YEAR r \<and> fp_MONTH p = MONTH r))"
proof (intro conjI allI impI)
  show "set (training_subset (monthly_series route))
           = {m \<in> set (monthly_series route). mp_YEAR m \<noteq> 2020 \<and> mp_YEAR m \<noteq> 2021}"
    by (rule training_subset_years)
next
  fix fit' assume "fit' (training_subset (monthly_series route)) = fit (training_subset (monthly_series route))"
  then show "get_forecast fit' df origin dest = get_forecast fit df origin dest"
    by (simp add: get_forecast_matched[OF assms])
next
  fix series assume ok: "get_forecast fit df origin dest = Inr (Some series, ''Success'')"
  then have series: "series = map historical (monthly_series route)
      @ future (fit (training_subset (monthly_series route)))
          (the (series_max (map mp_YEAR (monthly_series route))))"
    by (simp add: get_forecast_matched[OF assms] split: if_splits)
  show hist: "filter (\<lambda>p. fp_Type p = Historical) series = map historical (monthly_series route)"
    by (simp add: series filter_map o_def historical_def future_def)
  show "\<forall>r \<in> set route. \<exists>p \<in> set series.
              fp_Type p = Historical \<and> fp_YEAR p = YEAR r \<and> fp_MONTH p = MONTH r"
  proof
    fix r assume "r \<in> set route"
    then have "month_key r \<in> set (group_keys month_key route)"
      by (simp add: set_group_keys)
    then have "month_key r \<in> set (map (\<lambda>p. (mp_YEAR p, mp_MONTH p)) (monthly_series route))"
      by (simp only: set_monthly_series_keys)
    then obtain m where m: "m \<in> set (monthly_series route)" "mp_YEAR m = YEAR r" "mp_MONTH m = MONTH r"
      by (auto simp: month_key_def)
    then have "historical m \<in> set series" by (simp add: series)
    with m show "\<exists>p \<in> set series. fp_Type p = Historical \<and> fp_YEAR p = YEAR r \<and> fp_MONTH p = MONTH r"
      by (intro bexI[of _ "historical m"]) (simp_all add: historical_def)
  qed
qed

lemma training_subset_covid_table:
  "training_subset (monthly_series (rows covid_table)) = map (\<lambda>m. mk_point 2019 m 100) [1..12]"
  by (simp add: monthly_series_covid_table training_subset_def mk_point_def upto_1_12)

lemma rows_covid_table_nonempty: "rows covid_table \<noteq> []"
  by (simp add: covid_table_def route_table_def load_data_def month_row_def mk_row_def)

lemma get_forecast_covid_table:
  "\<exists>series. get_forecast fit covid_table ''JFK'' ''London'' = Inr (Some series, ''Success'')"
  by (simp add: get_forecast_matched[OF select_route_covid_table rows_covid_table_nonempty]
      training_subset_covid_table upto_1_12)

theorem training_excludes_2020_2021_witness:
  "\<exists>series. get_forecast mean_model covid_table ''JFK'' ''London'' = Inr (Some series, ''Success'')
     \<and> mk_point 2020 4 7 \<in> set (monthly_series (rows covid_table))
     \<and> mk_point 2020 4 7 \<notin> set (training_subset (monthly_series (rows covid_table)))
     \<and> historical (mk_point 2020 4 7) \<in> set (filter (\<lambda>p. fp_Type p = Historical) series)"
proof -
  note excl = training_excludes_2020_2021[OF select_route_covid_table rows_covid_table_nonempty,
      of mean_model]
  obtain series where ok:
    "get_forecast mean_model covid_table ''JFK'' ''London'' = Inr (Some series, ''Success'')"
    using get_forecast_covid_table by blast
  have m: "mk_point 2020 4 7 \<in> set (monthly_series (rows covid_table))"
    by (simp add: monthly_series_covid_table)
  have "mp_YEAR (mk_point 2020 4 7) = 2020" by (simp add: mk_point_def)
  with excl have t: "mk_point 2020 4 7 \<notin> set (training_subset (monthly_series (rows covid_table)))"
    by simp
  from excl ok have "filter (\<lambda>p. fp_Type p = Historical) series
      = map historical (monthly_series (rows covid_table))" by blast
  with m have "historical (mk_point 2020 4 7) \<in> set (filter (\<lambda>p. fp_Type p = Historical) series)"
    by simp
  with ok m t show ?thesis by blast
qed

subsection \<open>The returned series\<close>







subsection \<open>From the audit result to the forecast\<close>

text \<open>
  On a table loaded from files that have the city-name column, every destination label
  of the audit result of a hub is matched by the forecast engine: the call returns, and
  its status is not \<open>No Data\<close>.
\<close>

theorem roundtrip_with_city_column:
  assumes "has_DEST_CITY_NAME raw"
    and "run_audit (load_data raw) hub = Some st" and "s \<in> set st"
  shows "\<exists>res status. get_forecast fit (load_data raw) hub (st_Dest_Label s) = Inr (res, status)
     \<and> status \<noteq> ''No Data''"
proof -
  let ?df = "load_data raw"
  have col: "has_DEST_CITY_NAME ?df" using assms(1) by (simp add: load_data_def)
  have lab: "Dest_Label r = DEST_CITY_NAME r" if "r \<in> set (rows ?df)" for r
    using that assms(1) by (auto simp: load_data_def dest_label_def)
  from assms(2,3) have "st_key s \<in> set (map st_key st)" by simp
  then have "st_key s \<in> row_key ` set (audit_data ?df hub)"
    by (simp only: keys_run_audit[OF assms(2)] set_group_keys)
  then obtain r where r: "r \<in> set (audit_data ?df hub)" and k: "row_key r = st_key s" by auto
  from r have rin: "r \<in> set (rows ?df)" and ro: "ORIGIN r = hub"
    by (auto simp: audit_data_def Let_def)
  from k have "Dest_Label r = st_Dest_Label s" by (simp add: row_key_def st_key_def)
  with lab[OF rin] have "DEST_CITY_NAME r = st_Dest_Label s" by simp
  with rin ro have ne:
    "filter (\<lambda>r. ORIGIN r = hub \<and> DEST_CITY_NAME r = st_Dest_Label s) (rows ?df) \<noteq> []"
    by (auto simp: filter_empty_conv)
  then have sel: "select_route ?df hub (st_Dest_Label s)
      = Inr (filter (\<lambda>r. ORIGIN r = hub \<and> DEST_CITY_NAME r = st_Dest_Label s) (rows ?df))"
    using col by (simp add: select_route_def Let_def)
  show ?thesis unfolding get_forecast_matched[OF sel ne] by simp
qed

theorem roundtrip_with_city_column_witness:
  "\<exists>st s res status. run_audit two_airline_table ''JFK'' = Some st \<and> s \<in> set st
     \<and> get_forecast mean_model two_airline_table ''JFK'' (st_Dest_Label s) = Inr (res, status)
     \<and> status \<noteq> ''No Data''"
proof -
  from run_audit_two_airline_table obtain s s' where
    st: "run_audit two_airline_table ''JFK'' = Some [s, s']"
    by auto
  have mem: "s \<in> set [s, s']" by simp
  from roundtrip_with_city_column[OF _ st[unfolded two_airline_table_def] mem, of mean_model]
  obtain res status where
    "get_forecast mean_model two_airline_table ''JFK'' (st_Dest_Label s) = Inr (res, status)"
    "status \<noteq> ''No Data''"
    unfolding two_airline_table_def by auto
  with st mem show ?thesis by blast
qed

text \<open>
  Claim C10 (for every destination label of the audit result, the forecast engine on the
  same table and hub neither raises nor returns \<open>No Data\<close>). On the table that carries
  airport codes only, the audit labels the destination by its code, and the forecast
  call with that label raises the KeyError of line 99.
\<close>

theorem roundtrip_raises_without_city_column:
  "map_option (map st_Dest_Label) (run_audit codes_only_table ''JFK'') = Some [''LHR'']
   \<and> get_forecast fit codes_only_table ''JFK'' ''LHR'' = Inl (KeyError ''DEST_CITY_NAME'')"
proof -
  have "audit_data codes_only_table ''JFK'' \<noteq> []"
    by (simp add: audit_data_def codes_only_table_def load_data_def dest_label_def mk_row_def)
  then obtain st where st: "run_audit codes_only_table ''JFK'' = Some st"
    by (simp add: run_audit_def Let_def)
  have "group_keys row_key (audit_data codes_only_table ''JFK'') = [(''UK'', ''LHR'', ''AA'')]"
    by (simp add: audit_data_def codes_only_table_def load_data_def dest_label_def mk_row_def
        group_keys_def row_key_def)
  with keys_run_audit[OF st] have "map st_key st = [(''UK'', ''LHR'', ''AA'')]" by simp
  then have "map st_Dest_Label st = [''LHR'']"
    by (cases st) (auto simp: st_key_def)
  moreover have "get_forecast fit codes_only_table ''JFK'' ''LHR'' = Inl (KeyError ''DEST_CITY_NAME'')"
    by (simp add: get_forecast_def select_route_def codes_only_table_def load_data_def)
  ultimately show ?thesis by (simp add: st)
qed

end
